theory Spec2Isabelle
  imports Complex_Main "HOL-Library.Sublist"
begin

section \<open>Values shared by the two report generators\<close>

text \<open>
  A Python \<open>str\<close> is a sequence of Unicode code points; it is modelled as a list of
  naturals. ASCII literals of the source are written with \<open>ascii\<close>.

  Python floats are idealised as exact reals (\<open>real\<close>): \<open>1.8\<close> is \<open>9/5\<close>, \<open>/\<close> is exact
  division. This rounds coordinates, which are continuous, in their last digit. It is
  not exact for results that are discrete, and the theorems below stay where it is:
  \<^item> \<open>int(self.score * 1.8)\<close> in \<open>ScoreGauge.draw\<close>: for an integer score from 0 to 100 the
    double product truncates to the same integer as the exact product (the double
    nearest to 1.8 lies about 4.4e-17 above it, products that are whole numbers are
    representable, and rounding is monotone). For scores of sixteen digits the double
    product can truncate to another integer, and beyond the range of doubles Python
    raises \<open>OverflowError\<close>; the gauge is used below for scores from 0 to 100 only.
  \<^item> \<open>weight / total\<close> in \<open>ScoreBreakdownBar.draw\<close> raises when the double sum of the
    weights is zero. For weights that are all non-negative the double sum is zero
    exactly when the exact sum is; with weights of both signs the two can differ. The
    bar is used below for non-negative weights, and in one evaluation on small whole
    numbers, where every operation is exact.
  \<^item> \<open>int(weight*100)\<close> in the legend text depends on the rounding of the double
    product (0.29 gives 28). No theorem below speaks about the legend's text.
\<close>

type_synonym pystr = "nat list"

definition ascii :: "string \<Rightarrow> pystr" where
  "ascii s = map of_char s"

datatype py_error = ZeroDivisionError

datatype color = HexColor nat

definition white :: color where
  "white = HexColor 0xFFFFFF"

text \<open>\<open>int(x)\<close> on a float truncates towards zero.\<close>

definition py_int :: "real \<Rightarrow> int" where
  "py_int q = (if 0 \<le> q then \<lfloor>q\<rfloor> else \<lceil>q\<rceil>)"

text \<open>\<open>str(n)\<close> on an integer: decimal digits, a minus sign for negatives.\<close>

fun digits :: "nat \<Rightarrow> pystr" where
  "digits n = (if n < 10 then [48 + n] else digits (n div 10) @ [48 + n mod 10])"

declare digits.simps [simp del]

definition str_int :: "int \<Rightarrow> pystr" where
  "str_int i = (if i < 0 then 45 # digits (nat (- i)) else digits (nat i))"

subsection \<open>Canvas operations\<close>

text \<open>
  A flowable's \<open>draw\<close> issues calls on \<open>self.canv\<close>. The model returns the calls, in
  order, as a list. \<open>fill\<close> and \<open>stroke\<close> flags are booleans; an arc carries its start
  angle and its extent (the sweep), both integers in the source.
\<close>

datatype path_op = MoveTo real real | LineTo real real | ClosePath

datatype canvas_op =
    SetFillColor color
  | SetFillColorRGB real real real real
  | SetStrokeColor color
  | SetLineWidth real
  | SetFont pystr real
  | Rect real real real real bool bool
  | RoundRect real real real real real bool bool
  | Circle real real real bool bool
  | Line real real real real
  | Arc real real real real int int
  | DrawString real real pystr
  | DrawCentredString real real pystr
  | DrawRightString real real pystr
  | DrawPath "path_op list" bool bool


section \<open>generate-omnifolio-pdf.py\<close>

subsection \<open>Palette\<close>

definition SURFACE :: color where "SURFACE = HexColor 0x111111"
definition SURFACE2 :: color where "SURFACE2 = HexColor 0x141414"
definition BORDER :: color where "BORDER = HexColor 0x1F1F1F"
definition ACCENT_PUR :: color where "ACCENT_PUR = HexColor 0xA855F7"
definition ACCENT_BLUE :: color where "ACCENT_BLUE = HexColor 0x3B82F6"
definition ACCENT_GRN :: color where "ACCENT_GRN = HexColor 0x10B981"
definition ACCENT_AMB :: color where "ACCENT_AMB = HexColor 0xF59E0B"
definition TEXT_PRI :: color where "TEXT_PRI = HexColor 0xF3F4F6"
definition TEXT_SEC :: color where "TEXT_SEC = HexColor 0x9CA3AF"
definition TEXT_MUT :: color where "TEXT_MUT = HexColor 0x4B5563"

definition Helvetica :: pystr where "Helvetica = ascii ''Helvetica''"
definition Helvetica_Bold :: pystr where "Helvetica_Bold = ascii ''Helvetica-Bold''"

subsection \<open>ScoreGauge\<close>

record ScoreGauge =
  sg_score :: int
  sg_label :: pystr
  sg_color :: color
  sg_size :: real

text \<open>\<open>ScoreGauge.__init__\<close> stores its four arguments; it has no \<open>raise\<close>.\<close>

definition ScoreGauge_init :: "int \<Rightarrow> pystr \<Rightarrow> color \<Rightarrow> real \<Rightarrow> py_error + ScoreGauge" where
  "ScoreGauge_init score label col sz =
     Inr \<lparr>sg_score = score, sg_label = label, sg_color = col, sg_size = sz\<rparr>"

definition ScoreGauge_wrap :: "ScoreGauge \<Rightarrow> 'a list \<Rightarrow> ScoreGauge \<times> (real \<times> real)" where
  "ScoreGauge_wrap self args = (self, (sg_size self, sg_size self * (7 / 10)))"

definition ScoreGauge_draw :: "ScoreGauge \<Rightarrow> canvas_op list" where
  "ScoreGauge_draw self =
     (let cx = sg_size self / 2;
          cy = sg_size self * (22 / 100);
          r = sg_size self * (38 / 100);
          angle = py_int (of_int (sg_score self) * (18 / 10))
      in [SetStrokeColor SURFACE2,
          SetLineWidth 8,
          Arc (cx - r) (cy - r) (cx + r) (cy + r) 0 180,
          SetStrokeColor (sg_color self),
          SetLineWidth 8]
         @ (if angle > 0 then [Arc (cx - r) (cy - r) (cx + r) (cy + r) 0 angle] else [])
         @ [SetFillColor TEXT_PRI,
            SetFont Helvetica_Bold 16,
            DrawCentredString cx (cy + r * (45 / 100)) (str_int (sg_score self)),
            SetFillColor TEXT_SEC,
            SetFont Helvetica 7,
            DrawCentredString cx (cy - 12) (sg_label self)])"

text \<open>The extents (sweeps) of the arcs in a list of canvas calls, in drawing order.\<close>

fun arc_extents :: "canvas_op list \<Rightarrow> int list" where
  "arc_extents [] = []"
| "arc_extents (Arc x1 y1 x2 y2 s e # ops) = e # arc_extents ops"
| "arc_extents (_ # ops) = arc_extents ops"

subsection \<open>ColoredRect\<close>

record ColoredRect =
  cr_w :: real
  cr_h :: real
  cr_color :: color
  cr_radius :: real

text \<open>\<open>radius\<close> defaults to 4 when the caller omits it.\<close>

definition ColoredRect_init :: "real \<Rightarrow> real \<Rightarrow> color \<Rightarrow> real \<Rightarrow> py_error + ColoredRect" where
  "ColoredRect_init w h col radius =
     Inr \<lparr>cr_w = w, cr_h = h, cr_color = col, cr_radius = radius\<rparr>"

definition ColoredRect_wrap :: "ColoredRect \<Rightarrow> 'a list \<Rightarrow> ColoredRect \<times> (real \<times> real)" where
  "ColoredRect_wrap self args = (self, (cr_w self, cr_h self))"

definition ColoredRect_draw :: "ColoredRect \<Rightarrow> canvas_op list" where
  "ColoredRect_draw self =
     [SetFillColor (cr_color self),
      RoundRect 0 0 (cr_w self) (cr_h self) (cr_radius self) True False]"

subsection \<open>HeroHeader\<close>

text \<open>
  \<open>HeroHeader.draw\<close> reads the system clock: \<open>datetime.date.today()\<close>. The date is an
  input of the model. \<open>strftime('%B %d, %Y')\<close> gives the English month name, the day
  padded to two digits and the year (four digits for the years a clock returns).
\<close>

datatype month = January | February | March | April | May | June | July | August
  | September | October | November | December

record date =
  year :: nat
  month :: month
  day :: nat

fun month_B :: "month \<Rightarrow> pystr" where
  "month_B January = ascii ''January''"
| "month_B February = ascii ''February''"
| "month_B March = ascii ''March''"
| "month_B April = ascii ''April''"
| "month_B May = ascii ''May''"
| "month_B June = ascii ''June''"
| "month_B July = ascii ''July''"
| "month_B August = ascii ''August''"
| "month_B September = ascii ''September''"
| "month_B October = ascii ''October''"
| "month_B November = ascii ''November''"
| "month_B December = ascii ''December''"

definition pad2 :: "nat \<Rightarrow> pystr" where
  "pad2 n = (if n < 10 then 48 # digits n else digits n)"

definition strftime_B_d_Y :: "date \<Rightarrow> pystr" where
  "strftime_B_d_Y d = month_B (month d) @ ascii '' '' @ pad2 (day d) @ ascii '', '' @ digits (year d)"

record HeroHeader =
  hh_width :: real
  hh_height :: real

definition HeroHeader_init :: "real \<Rightarrow> py_error + HeroHeader" where
  "HeroHeader_init width = Inr \<lparr>hh_width = width, hh_height = 200\<rparr>"

definition HeroHeader_wrap :: "HeroHeader \<Rightarrow> 'a list \<Rightarrow> HeroHeader \<times> (real \<times> real)" where
  "HeroHeader_wrap self args = (self, (hh_width self, hh_height self))"

text \<open>The badge loop of \<open>HeroHeader.draw\<close>: \<open>bx\<close> starts at 28 and grows by 90 per badge.\<close>

fun hero_badges :: "real \<Rightarrow> (pystr \<times> pystr \<times> color) list \<Rightarrow> canvas_op list" where
  "hero_badges bx [] = []"
| "hero_badges bx ((val, lbl, col) # services) =
     [SetFillColor col,
      RoundRect bx 34 80 20 4 True False,
      SetFillColor white,
      SetFont Helvetica_Bold 9,
      DrawCentredString (bx + 40) 43 (val @ ascii ''  '' @ lbl)]
     @ hero_badges (bx + 90) services"

text \<open>
  \<open>stringWidth\<close> is the canvas's font metric (text, font name, font size), a collaborator
  outside the repository; it is a parameter.
\<close>

definition HeroHeader_draw ::
  "(pystr \<Rightarrow> pystr \<Rightarrow> real \<Rightarrow> real) \<Rightarrow> date \<Rightarrow> HeroHeader \<Rightarrow> canvas_op list" where
  "HeroHeader_draw stringWidth today self =
     (let w = hh_width self;
          h = hh_height self;
          colors_line = [ACCENT_PUR, ACCENT_BLUE, ACCENT_GRN, ACCENT_AMB];
          seg_w = w / of_nat (length colors_line);
          date_str = strftime_B_d_Y today
      in [SetFillColor (HexColor 0x050505),
          Rect 0 0 w h True False]
         @ concat (map (\<lambda>(cx, cy, r, alpha).
               [SetFillColorRGB (66 / 100) (33 / 100) (97 / 100) alpha,
                Circle cx cy r True False])
             [(w * (1 / 10), h * (8 / 10), 100, 12 / 100),
              (w * (85 / 100), h * (3 / 10), 120, 10 / 100),
              (w * (5 / 10), h * (5 / 10), 90, 7 / 100)])
         @ concat (map (\<lambda>(i, col).
               [SetStrokeColor col,
                SetLineWidth 3,
                Line (of_nat i * seg_w) (h - 2) ((of_nat i + 1) * seg_w) (h - 2)])
             (enumerate 0 colors_line))
         @ [SetFillColor TEXT_PRI,
            SetFont Helvetica_Bold 28,
            DrawString 28 (h - 48) (ascii ''OMNI''),
            SetFillColor ACCENT_PUR,
            DrawString (28 + stringWidth (ascii ''OMNI'') Helvetica_Bold 28) (h - 48) (ascii ''FOLIO''),
            SetFont Helvetica 9,
            SetFillColor TEXT_SEC,
            DrawString 28 (h - 64)
              (ascii ''Proprietary Intelligence Platform  '' @ [0xB7]
               @ ascii ''  Copyright OmniFolio. All rights reserved.''),
            SetFillColor TEXT_PRI,
            SetFont Helvetica_Bold 20,
            DrawString 28 (h - 104) (ascii ''Proprietary Intelligence Services''),
            SetFont Helvetica 11,
            SetFillColor TEXT_SEC,
            DrawString 28 (h - 124)
              (ascii ''Technical Overview  '' @ [0xB7]
               @ ascii ''  Architecture, Scoring Algorithms & Data Pipelines''),
            SetFont Helvetica 8,
            SetFillColor TEXT_MUT,
            DrawRightString (w - 28) (h - 124) date_str,
            SetStrokeColor BORDER,
            SetLineWidth 1,
            Line 28 24 (w - 28) 24]
         @ hero_badges 28
             [(ascii ''6'', ascii ''Proprietary Services'', ACCENT_PUR),
              (ascii ''0'', ascii ''Third-Party APIs'', ACCENT_GRN),
              (ascii ''100%'', ascii ''Public Data Sources'', ACCENT_BLUE)])"

subsection \<open>SectionBanner\<close>

record SectionBanner =
  sb_width :: real
  sb_height :: real
  sb_number :: pystr
  sb_title :: pystr
  sb_subtitle :: pystr
  sb_accent :: color

definition SectionBanner_init ::
  "real \<Rightarrow> pystr \<Rightarrow> pystr \<Rightarrow> pystr \<Rightarrow> color \<Rightarrow> py_error + SectionBanner" where
  "SectionBanner_init width number title subtitle accent_color =
     Inr \<lparr>sb_width = width, sb_height = 54, sb_number = number, sb_title = title,
          sb_subtitle = subtitle, sb_accent = accent_color\<rparr>"

definition SectionBanner_wrap :: "SectionBanner \<Rightarrow> 'a list \<Rightarrow> SectionBanner \<times> (real \<times> real)" where
  "SectionBanner_wrap self args = (self, (sb_width self, sb_height self))"

text \<open>
  \<open>hexval()\<close> of a colour is \<open>0x\<close> followed by six hexadecimal digits; the three slices
  \<open>[0:2]\<close>, \<open>[2:4]\<close>, \<open>[4:6]\<close> read as base 16 are its red, green and blue bytes.
\<close>

fun hex_bytes :: "color \<Rightarrow> nat \<times> nat \<times> nat" where
  "hex_bytes (HexColor v) = (v div 65536 mod 256, v div 256 mod 256, v mod 256)"

definition SectionBanner_draw :: "SectionBanner \<Rightarrow> canvas_op list" where
  "SectionBanner_draw self =
     (let w = sb_width self;
          h = sb_height self
      in case hex_bytes (sb_accent self) of (rb, gb, bb) \<Rightarrow>
         [SetFillColor SURFACE,
          RoundRect 0 0 w h 6 True False,
          SetFillColor (sb_accent self),
          RoundRect 0 0 5 h 3 True False,
          SetFillColorRGB (of_nat rb / 255) (of_nat gb / 255) (of_nat bb / 255) (15 / 100),
          Circle 28 (h / 2) 13 True False,
          SetFillColor (sb_accent self),
          SetFont Helvetica_Bold 11,
          DrawCentredString 28 (h / 2 - 4) (sb_number self),
          SetFillColor TEXT_PRI,
          SetFont Helvetica_Bold 14,
          DrawString 52 (h - 22) (sb_title self),
          SetFillColor TEXT_SEC,
          SetFont Helvetica 9,
          DrawString 52 14 (sb_subtitle self)])"

subsection \<open>DataFlowDiagram\<close>

record DataFlowDiagram =
  df_width :: real
  df_height :: real
  df_steps :: "(pystr \<times> pystr) list"
  df_accent :: color

definition DataFlowDiagram_init ::
  "real \<Rightarrow> (pystr \<times> pystr) list \<Rightarrow> color \<Rightarrow> py_error + DataFlowDiagram" where
  "DataFlowDiagram_init width steps accent_color =
     Inr \<lparr>df_width = width, df_height = 64, df_steps = steps, df_accent = accent_color\<rparr>"

definition DataFlowDiagram_wrap ::
  "DataFlowDiagram \<Rightarrow> 'a list \<Rightarrow> DataFlowDiagram \<times> (real \<times> real)" where
  "DataFlowDiagram_wrap self args = (self, (df_width self, df_height self))"

definition box_w :: real where "box_w = 90"
definition box_h :: real where "box_h = 40"

text \<open>The body of the loop over \<open>enumerate(self.steps)\<close>, for step \<open>i\<close> of \<open>n\<close>.\<close>

definition flow_step :: "color \<Rightarrow> nat \<Rightarrow> real \<Rightarrow> real \<Rightarrow> nat \<times> pystr \<times> pystr \<Rightarrow> canvas_op list" where
  "flow_step accent n gap cy step =
     (case step of (i, icon, label) \<Rightarrow>
       (let bx = gap + of_nat i * (box_w + gap);
            by = cy - box_h / 2
        in [SetFillColor SURFACE2,
            RoundRect bx by box_w box_h 5 True False,
            SetStrokeColor accent,
            SetLineWidth (5 / 10),
            RoundRect bx by box_w box_h 5 False True,
            SetFillColor accent,
            SetFont Helvetica_Bold 10,
            DrawCentredString (bx + box_w / 2) (by + box_h - 13) icon,
            SetFillColor TEXT_SEC,
            SetFont Helvetica 7,
            DrawCentredString (bx + box_w / 2) (by + 7) label]
           @ (if int i < int n - 1
              then (let ax = bx + box_w + gap / 2
                    in [SetStrokeColor accent,
                        SetLineWidth (15 / 10),
                        Line (bx + box_w + 4) cy (ax - 4) cy,
                        SetFillColor accent,
                        DrawPath [MoveTo (ax - 4) (cy - 4), LineTo (ax - 4) (cy + 4),
                                  LineTo (ax + 2) cy, ClosePath] True False])
              else [])))"

text \<open>\<open>n + 1\<close> is at least 1, so the division that computes \<open>gap\<close> cannot fail.\<close>

definition DataFlowDiagram_draw :: "DataFlowDiagram \<Rightarrow> canvas_op list" where
  "DataFlowDiagram_draw self =
     (let n = length (df_steps self);
          gap = (df_width self - of_nat n * box_w) / (of_nat n + 1);
          cy = df_height self / 2
      in concat (map (flow_step (df_accent self) n gap cy) (enumerate 0 (df_steps self))))"

text \<open>The closed paths (the arrowheads) in a list of canvas calls, in drawing order.\<close>

fun arrow_heads :: "canvas_op list \<Rightarrow> path_op list list" where
  "arrow_heads [] = []"
| "arrow_heads (DrawPath p fill stroke # ops) = p # arrow_heads ops"
| "arrow_heads (_ # ops) = arrow_heads ops"

subsection \<open>ScoreBreakdownBar\<close>

type_synonym component = "pystr \<times> real \<times> color"

record ScoreBreakdownBar =
  bb_width :: real
  bb_height :: real
  bb_components :: "component list"

text \<open>\<open>ScoreBreakdownBar.__init__\<close> stores the width and the components; it has no \<open>raise\<close>.\<close>

definition ScoreBreakdownBar_init :: "real \<Rightarrow> component list \<Rightarrow> py_error + ScoreBreakdownBar" where
  "ScoreBreakdownBar_init width components =
     Inr \<lparr>bb_width = width, bb_height = 32, bb_components = components\<rparr>"

definition ScoreBreakdownBar_wrap ::
  "ScoreBreakdownBar \<Rightarrow> 'a list \<Rightarrow> ScoreBreakdownBar \<times> (real \<times> real)" where
  "ScoreBreakdownBar_wrap self args = (self, (bb_width self, bb_height self))"





subsection \<open>FeatureGrid\<close>

record FeatureGrid =
  fg_width :: real
  fg_features :: "(pystr \<times> pystr) list"
  fg_accent :: color
  fg_height :: real

text \<open>\<open>rows = math.ceil(len(features) / 2)\<close>; \<open>self.height = rows * 36 + 4\<close>.\<close>

definition FeatureGrid_init ::
  "real \<Rightarrow> (pystr \<times> pystr) list \<Rightarrow> color \<Rightarrow> py_error + FeatureGrid" where
  "FeatureGrid_init width features accent_color =
     (let rows = \<lceil>real (length features) / 2\<rceil>
      in Inr \<lparr>fg_width = width, fg_features = features, fg_accent = accent_color,
              fg_height = of_int (rows * 36 + 4)\<rparr>)"

definition FeatureGrid_wrap :: "FeatureGrid \<Rightarrow> 'a list \<Rightarrow> FeatureGrid \<times> (real \<times> real)" where
  "FeatureGrid_wrap self args = (self, (fg_width self, fg_height self))"

definition row_h :: real where "row_h = 36"

definition feature_card :: "color \<Rightarrow> real \<Rightarrow> real \<Rightarrow> nat \<times> pystr \<times> pystr \<Rightarrow> canvas_op list" where
  "feature_card accent height col_w item =
     (case item of (i, title, desc) \<Rightarrow>
       (let col = i mod 2;
            row = i div 2;
            bx = of_nat col * (col_w + 8);
            by = height - (of_nat row + 1) * row_h + 2
        in [SetFillColor SURFACE2,
            RoundRect bx by col_w (row_h - 2) 4 True False,
            SetFillColor accent,
            Circle (bx + 12) (by + row_h / 2 - 1) 3 True False,
            SetFillColor TEXT_PRI,
            SetFont Helvetica_Bold 8,
            DrawString (bx + 22) (by + 22) title,
            SetFillColor TEXT_SEC,
            SetFont Helvetica 7,
            DrawString (bx + 22) (by + 10) desc]))"

definition FeatureGrid_draw :: "FeatureGrid \<Rightarrow> canvas_op list" where
  "FeatureGrid_draw self =
     (let col_w = (fg_width self - 8) / 2
      in concat (map (feature_card (fg_accent self) (fg_height self) col_w)
                     (enumerate 0 (fg_features self))))"

section \<open>generate-storage-report.py\<close>

subsection \<open>Colours and paragraph styles\<close>

definition BRAND_ACCENT :: color where "BRAND_ACCENT = HexColor 0x6366F1"
definition BRAND_RED :: color where "BRAND_RED = HexColor 0xEF4444"
definition TABLE_HEADER :: color where "TABLE_HEADER = HexColor 0x312E81"
definition ROW_ALT :: color where "ROW_ALT = HexColor 0xF5F3FF"

text \<open>\<open>cm\<close> of \<open>reportlab.lib.units\<close>: 72 points per inch, 2.54 cm per inch.\<close>

definition cm :: real where "cm = 72 / (254 / 100)"

datatype alignment = TA_LEFT | TA_CENTER | TA_RIGHT

text \<open>
  A \<open>ParagraphStyle\<close> with the attributes the source sets; \<open>None\<close> is an attribute left to
  the parent style \<open>styles["Normal"]\<close>.
\<close>

record ParagraphStyle =
  ps_name :: pystr
  ps_fontName :: pystr
  ps_fontSize :: real
  ps_textColor :: color
  ps_leading :: real
  ps_spaceAfter :: "real option"
  ps_alignment :: "alignment option"

definition body_style :: ParagraphStyle where
  "body_style = \<lparr>ps_name = ascii ''Body'', ps_fontName = ascii ''Helvetica'', ps_fontSize = 9,
     ps_textColor = HexColor 0x1F2937, ps_leading = 13, ps_spaceAfter = Some 4,
     ps_alignment = None\<rparr>"

definition caption_style :: ParagraphStyle where
  "caption_style = \<lparr>ps_name = ascii ''Caption'', ps_fontName = ascii ''Helvetica-Bold'',
     ps_fontSize = 9, ps_textColor = white, ps_leading = 11, ps_spaceAfter = None,
     ps_alignment = Some TA_LEFT\<rparr>"

definition warn_style :: ParagraphStyle where
  "warn_style = \<lparr>ps_name = ascii ''Warn'', ps_fontName = ascii ''Helvetica-Bold'',
     ps_fontSize = 9, ps_textColor = BRAND_RED, ps_leading = 11, ps_spaceAfter = None,
     ps_alignment = None\<rparr>"

datatype Paragraph = Paragraph pystr ParagraphStyle

fun paragraph_style :: "Paragraph \<Rightarrow> ParagraphStyle" where
  "paragraph_style (Paragraph txt st) = st"

subsection \<open>make_table\<close>

text \<open>Python's \<open>needle in haystack\<close> on strings: \<open>needle\<close> occurs as a contiguous run.\<close>

fun py_in :: "'a list \<Rightarrow> 'a list \<Rightarrow> bool" where
  "py_in needle [] = (needle = [])"
| "py_in needle (c # cs) = (prefix needle (c # cs) \<or> py_in needle cs)"

text \<open>
  The literal tested by \<open>make_table\<close>: WARNING SIGN (U+26A0) followed by VARIATION
  SELECTOR-16 (U+FE0F).
\<close>

definition WARN_SIGN :: pystr where
  "WARN_SIGN = [0x26A0, 0xFE0F]"

datatype style_arg = ArgColor color | ArgNum real | ArgStr pystr | ArgColors "color list"

type_synonym style_cmd = "pystr \<times> (int \<times> int) \<times> (int \<times> int) \<times> style_arg list"

record Table =
  t_data :: "Paragraph list list"
  t_colWidths :: "real list"
  t_repeatRows :: nat
  t_style :: "style_cmd list"

definition style_cell :: "pystr \<Rightarrow> Paragraph" where
  "style_cell cell =
     (let txt = cell
      in if py_in WARN_SIGN txt then Paragraph txt warn_style else Paragraph txt body_style)"

text \<open>
  \<open>make_table(headers, rows, col_widths, warn_col=None)\<close>. The cells are strings, on which
  \<open>str\<close> is the identity. The loop indices \<open>i\<close> and \<open>j\<close> are not used by the loop bodies.
\<close>

definition make_table ::
  "pystr list \<Rightarrow> pystr list list \<Rightarrow> real list \<Rightarrow> int option \<Rightarrow> Table" where
  "make_table headers rows col_widths warn_col =
     (let header_row = map (\<lambda>h. Paragraph (ascii ''<b>'' @ h @ ascii ''</b>'') caption_style) headers;
          data = header_row # map (map style_cell) rows;
          col_widths_pt = map (\<lambda>w. w * cm) col_widths;
          style =
            [(ascii ''BACKGROUND'', (0, 0), (-1, 0), [ArgColor TABLE_HEADER]),
             (ascii ''TEXTCOLOR'', (0, 0), (-1, 0), [ArgColor white]),
             (ascii ''FONTNAME'', (0, 0), (-1, 0), [ArgStr (ascii ''Helvetica-Bold'')]),
             (ascii ''FONTSIZE'', (0, 0), (-1, 0), [ArgNum (85 / 10)]),
             (ascii ''BOTTOMPADDING'', (0, 0), (-1, 0), [ArgNum 6]),
             (ascii ''TOPPADDING'', (0, 0), (-1, 0), [ArgNum 6])]
            @ map (\<lambda>r. (ascii ''BACKGROUND'', (0, int r), (-1, int r), [ArgColor ROW_ALT]))
                  (filter even [2..<length data])
            @ [(ascii ''GRID'', (0, 0), (-1, -1), [ArgNum (4 / 10), ArgColor (HexColor 0xC7D2FE)]),
               (ascii ''ROWBACKGROUNDS'', (0, 1), (-1, -1), [ArgColors [white, ROW_ALT]]),
               (ascii ''VALIGN'', (0, 0), (-1, -1), [ArgStr (ascii ''MIDDLE'')]),
               (ascii ''TOPPADDING'', (0, 1), (-1, -1), [ArgNum 4]),
               (ascii ''BOTTOMPADDING'', (0, 1), (-1, -1), [ArgNum 4]),
               (ascii ''LEFTPADDING'', (0, 0), (-1, -1), [ArgNum 5]),
               (ascii ''RIGHTPADDING'', (0, 0), (-1, -1), [ArgNum 5])]
      in \<lparr>t_data = data, t_colWidths = col_widths_pt, t_repeatRows = 1, t_style = style\<rparr>)"

subsection \<open>ColorBadge\<close>

record ColorBadge =
  cb_text :: pystr
  cb_bg :: color
  cb_fg :: color
  cb_width :: real
  cb_height :: real

text \<open>Defaults: \<open>bg=BRAND_ACCENT\<close>, \<open>fg=colors.white\<close>, \<open>width=110\<close>, \<open>height=16\<close>.\<close>

definition ColorBadge_init ::
  "pystr \<Rightarrow> color \<Rightarrow> color \<Rightarrow> real \<Rightarrow> real \<Rightarrow> py_error + ColorBadge" where
  "ColorBadge_init txt bg fg width height =
     Inr \<lparr>cb_text = txt, cb_bg = bg, cb_fg = fg, cb_width = width, cb_height = height\<rparr>"

definition ColorBadge_draw :: "ColorBadge \<Rightarrow> canvas_op list" where
  "ColorBadge_draw self =
     [SetFillColor (cb_bg self),
      RoundRect 0 0 (cb_width self) (cb_height self) 4 True False,
      SetFillColor (cb_fg self),
      SetFont Helvetica_Bold 8,
      DrawCentredString (cb_width self / 2) 4 (cb_text self)]"

definition ColorBadge_wrap :: "ColorBadge \<Rightarrow> 'a list \<Rightarrow> ColorBadge \<times> (real \<times> real)" where
  "ColorBadge_wrap self args = (self, (cb_width self, cb_height self))"

section \<open>The custom flowables as one type\<close>

text \<open>
  The layout engine calls \<open>wrap\<close> on any flowable. \<open>wrap\<close> returns the flowable as the
  call leaves it together with the size it reports.
\<close>

datatype flowable =
    F_ColoredRect ColoredRect
  | F_HeroHeader HeroHeader
  | F_SectionBanner SectionBanner
  | F_ScoreGauge ScoreGauge
  | F_DataFlowDiagram DataFlowDiagram
  | F_ScoreBreakdownBar ScoreBreakdownBar
  | F_FeatureGrid FeatureGrid
  | F_ColorBadge ColorBadge

fun wrap :: "flowable \<Rightarrow> 'a list \<Rightarrow> flowable \<times> (real \<times> real)" where
  "wrap (F_ColoredRect f) args = map_prod F_ColoredRect id (ColoredRect_wrap f args)"
| "wrap (F_HeroHeader f) args = map_prod F_HeroHeader id (HeroHeader_wrap f args)"
| "wrap (F_SectionBanner f) args = map_prod F_SectionBanner id (SectionBanner_wrap f args)"
| "wrap (F_ScoreGauge f) args = map_prod F_ScoreGauge id (ScoreGauge_wrap f args)"
| "wrap (F_DataFlowDiagram f) args = map_prod F_DataFlowDiagram id (DataFlowDiagram_wrap f args)"
| "wrap (F_ScoreBreakdownBar f) args = map_prod F_ScoreBreakdownBar id (ScoreBreakdownBar_wrap f args)"
| "wrap (F_FeatureGrid f) args = map_prod F_FeatureGrid id (FeatureGrid_wrap f args)"
| "wrap (F_ColorBadge f) args = map_prod F_ColorBadge id (ColorBadge_wrap f args)"

section \<open>Verification\<close>

subsection \<open>ScoreGauge: the sweep of the filled arc\<close>

lemma py_int_score: "0 \<le> s \<Longrightarrow> py_int (of_int s * (18 / 10)) = \<lfloor>real_of_int s * (18 / 10)\<rfloor>"
  by (simp add: py_int_def)

lemma floor_score: "\<lfloor>real_of_int s * (18 / 10)\<rfloor> = (9 * s) div 5"
proof -
  have "(of_int s * (18 / 10) :: real) = of_int (9 * s) / of_int 5" by simp
  then show ?thesis by (simp only: floor_divide_of_int_eq)
qed

text \<open>
  Claim C1, as the code has it. For a \<open>ScoreGauge\<close> constructed with an integer score in
  [0,100], \<open>draw\<close> issues the track arc (extent 180) and then the filled arc with the same
  bounding box, start angle 0 and extent \<open>int(score * 1.8)\<close>, that is \<open>score \<times> 1.8\<close>
  truncated to whole degrees (\<open>9 * score div 5\<close>). The filled arc is left out exactly when
  that extent is zero, which happens only for score 0. The extent lies in [0,180].
\<close>

theorem C1_gauge_sweep_truncated:
  "ScoreGauge_init score label col sz = Inr g \<Longrightarrow> 0 \<le> score \<Longrightarrow> score \<le> 100 \<Longrightarrow>
   (let angle = \<lfloor>real_of_int score * (18 / 10)\<rfloor>;
        cx = sz / 2; cy = sz * (22 / 100); r = sz * (38 / 100)
    in ScoreGauge_draw g =
         [SetStrokeColor SURFACE2, SetLineWidth 8,
          Arc (cx - r) (cy - r) (cx + r) (cy + r) 0 180,
          SetStrokeColor col, SetLineWidth 8]
         @ (if angle = 0 then [] else [Arc (cx - r) (cy - r) (cx + r) (cy + r) 0 angle])
         @ [SetFillColor TEXT_PRI, SetFont Helvetica_Bold 16,
            DrawCentredString cx (cy + r * (45 / 100)) (str_int score),
            SetFillColor TEXT_SEC, SetFont Helvetica 7,
            DrawCentredString cx (cy - 12) label]
       \<and> arc_extents (ScoreGauge_draw g) = (if angle = 0 then [180] else [180, angle])
       \<and> angle = (9 * score) div 5 \<and> 0 \<le> angle \<and> angle \<le> 180
       \<and> (angle = 0 \<longleftrightarrow> score = 0))"
proof -
  assume init: "ScoreGauge_init score label col sz = Inr g"
    and lo: "0 \<le> score" and hi: "score \<le> 100"
  define angle where "angle = \<lfloor>real_of_int score * (18 / 10)\<rfloor>"
  have g: "g = \<lparr>sg_score = score, sg_label = label, sg_color = col, sg_size = sz\<rparr>"
    using init by (simp add: ScoreGauge_init_def)
  have a: "angle = (9 * score) div 5"
    unfolding angle_def by (rule floor_score)
  have pa: "py_int (of_int score * (18 / 10)) = angle"
    unfolding angle_def using lo by (rule py_int_score)
  have rng: "0 \<le> angle" "angle \<le> 180" "angle = 0 \<longleftrightarrow> score = 0"
    using lo hi unfolding a by presburger+
  have pos: "angle > 0 \<longleftrightarrow> angle \<noteq> 0" using rng(1) by linarith
  have d: "ScoreGauge_draw g =
         [SetStrokeColor SURFACE2, SetLineWidth 8,
          Arc (sz / 2 - sz * (38 / 100)) (sz * (22 / 100) - sz * (38 / 100))
              (sz / 2 + sz * (38 / 100)) (sz * (22 / 100) + sz * (38 / 100)) 0 180,
          SetStrokeColor col, SetLineWidth 8]
         @ (if angle = 0 then []
            else [Arc (sz / 2 - sz * (38 / 100)) (sz * (22 / 100) - sz * (38 / 100))
                      (sz / 2 + sz * (38 / 100)) (sz * (22 / 100) + sz * (38 / 100)) 0 angle])
         @ [SetFillColor TEXT_PRI, SetFont Helvetica_Bold 16,
            DrawCentredString (sz / 2) (sz * (22 / 100) + sz * (38 / 100) * (45 / 100)) (str_int score),
            SetFillColor TEXT_SEC, SetFont Helvetica 7,
            DrawCentredString (sz / 2) (sz * (22 / 100) - 12) label]"
    unfolding ScoreGauge_draw_def Let_def g using pa pos by simp
  have e: "arc_extents (ScoreGauge_draw g) = (if angle = 0 then [180] else [180, angle])"
    unfolding d by simp
  show ?thesis
    unfolding Let_def angle_def [symmetric] using d e a rng by simp
qed

text \<open>
  The theorem at scores 0, 50, 100 and 37: the sweeps are 0 (track only), 90, 180 and 66.
\<close>

theorem C1_gauge_sweep_truncated_witness:
  "arc_extents (ScoreGauge_draw \<lparr>sg_score = 0, sg_label = ascii ''OIC'', sg_color = ACCENT_PUR, sg_size = 90\<rparr>) = [180]
   \<and> arc_extents (ScoreGauge_draw \<lparr>sg_score = 50, sg_label = ascii ''OIC'', sg_color = ACCENT_PUR, sg_size = 90\<rparr>) = [180, 90]
   \<and> arc_extents (ScoreGauge_draw \<lparr>sg_score = 100, sg_label = ascii ''OIC'', sg_color = ACCENT_PUR, sg_size = 90\<rparr>) = [180, 180]
   \<and> arc_extents (ScoreGauge_draw \<lparr>sg_score = 37, sg_label = ascii ''OIC'', sg_color = ACCENT_PUR, sg_size = 90\<rparr>) = [180, 66]"
  using C1_gauge_sweep_truncated [of 0 "ascii ''OIC''" ACCENT_PUR 90, OF ScoreGauge_init_def]
    C1_gauge_sweep_truncated [of 50 "ascii ''OIC''" ACCENT_PUR 90, OF ScoreGauge_init_def]
    C1_gauge_sweep_truncated [of 100 "ascii ''OIC''" ACCENT_PUR 90, OF ScoreGauge_init_def]
    C1_gauge_sweep_truncated [of 37 "ascii ''OIC''" ACCENT_PUR 90, OF ScoreGauge_init_def]
  by (simp add: Let_def)

text \<open>
  The sweep is not \<open>score \<times> 1.8\<close> exactly: a gauge with score 1 draws a filled arc of
  1 degree, not 1.8.
\<close>

theorem C1_sweep_not_exact_counterexample:
  "ScoreGauge_init 1 (ascii ''OIC'') ACCENT_PUR 90
     = Inr \<lparr>sg_score = 1, sg_label = ascii ''OIC'', sg_color = ACCENT_PUR, sg_size = 90\<rparr>
   \<and> arc_extents (ScoreGauge_draw
         \<lparr>sg_score = 1, sg_label = ascii ''OIC'', sg_color = ACCENT_PUR, sg_size = 90\<rparr>) = [180, 1]
   \<and> real_of_int 1 \<noteq> real_of_int 1 * (18 / 10)"
  by (simp add: ScoreGauge_init_def ScoreGauge_draw_def py_int_def Let_def)

subsection \<open>Construction does not validate\<close>

text \<open>
  Claim C2, as the code has it. Neither constructor checks its input: for every score,
  also one outside [0,100], \<open>ScoreGauge(score, ...)\<close> raises nothing and returns a gauge
  that holds the score unchanged, and for every list of components, also one whose
  weights sum to zero, \<open>ScoreBreakdownBar(width, components)\<close> raises nothing and returns
  a bar that holds the list unchanged.
\<close>

theorem C2_no_validation_at_construction:
  "ScoreGauge_init score label col sz
     = Inr \<lparr>sg_score = score, sg_label = label, sg_color = col, sg_size = sz\<rparr>
   \<and> ScoreBreakdownBar_init W comps
       = Inr \<lparr>bb_width = W, bb_height = 32, bb_components = comps\<rparr>"
  by (simp add: ScoreGauge_init_def ScoreBreakdownBar_init_def)

text \<open>The theorem at score -5 and at a bar of one component of weight 0.\<close>

theorem C2_no_validation_at_construction_witness:
  "ScoreGauge_init (- 5) (ascii ''OIC'') ACCENT_PUR 90
     = Inr \<lparr>sg_score = - 5, sg_label = ascii ''OIC'', sg_color = ACCENT_PUR, sg_size = 90\<rparr>
   \<and> ScoreBreakdownBar_init 300 [(ascii ''A'', 0, ACCENT_PUR)]
       = Inr \<lparr>bb_width = 300, bb_height = 32, bb_components = [(ascii ''A'', 0, ACCENT_PUR)]\<rparr>"
  using C2_no_validation_at_construction [of "- 5" "ascii ''OIC''" ACCENT_PUR 90 300
      "[(ascii ''A'', 0, ACCENT_PUR)]"]
  by simp

text \<open>
  Construction with a score of 150, and with weights 0 and 0, returns an object: no error
  is raised at construction time.
\<close>

theorem C2_construction_accepts_counterexample:
  "ScoreGauge_init 150 (ascii ''OIC'') ACCENT_PUR 90
     = Inr \<lparr>sg_score = 150, sg_label = ascii ''OIC'', sg_color = ACCENT_PUR, sg_size = 90\<rparr>
   \<and> \<not> (0 \<le> (150::int) \<and> (150::int) \<le> 100)
   \<and> ScoreBreakdownBar_init 300 [(ascii ''A'', 0, ACCENT_PUR), (ascii ''B'', 0, ACCENT_BLUE)]
       = Inr \<lparr>bb_width = 300, bb_height = 32,
              bb_components = [(ascii ''A'', 0, ACCENT_PUR), (ascii ''B'', 0, ACCENT_BLUE)]\<rparr>
   \<and> sum_list (map (\<lambda>(l, w, c). w)
         [(ascii ''A'', 0 :: real, ACCENT_PUR), (ascii ''B'', 0, ACCENT_BLUE)]) = 0"
  by (simp add: ScoreGauge_init_def ScoreBreakdownBar_init_def)

subsection \<open>ScoreBreakdownBar: segments and legend\<close>






subsection \<open>DataFlowDiagram: boxes, gaps and arrows\<close>

lemma map_enumerate_nth:
  "map f (enumerate 0 xs) = map (\<lambda>i. f (i, xs ! i)) [0..<length xs]"
  by (rule nth_equalityI) (simp_all add: nth_enumerate_eq)

lemma arrow_heads_append: "arrow_heads (xs @ ys) = arrow_heads xs @ arrow_heads ys"
  by (induction xs rule: arrow_heads.induct) simp_all

lemma arrow_heads_concat: "arrow_heads (concat xss) = concat (map arrow_heads xss)"
  by (induction xss) (simp_all add: arrow_heads_append)

lemma concat_all_but_last:
  "concat (map (\<lambda>i. if i + 1 < n then [h i] else []) [0..<n]) = map h [0..<n - 1]"
proof (cases n)
  case 0
  then show ?thesis by simp
next
  case (Suc m)
  have "map (\<lambda>i. if i + 1 < Suc m then [h i] else []) [0..<m] = map (\<lambda>i. [h i]) [0..<m]"
    by (rule map_cong) simp_all
  then have "concat (map (\<lambda>i. if i + 1 < Suc m then [h i] else []) [0..<m]) = map h [0..<m]"
    by (simp only: concat_map_singleton)
  then show ?thesis by (simp add: Suc)
qed

lemma flow_step_eq:
  "flow_step accent n gap cy (i, s) =
     [SetFillColor SURFACE2,
      RoundRect (gap + of_nat i * (90 + gap)) (cy - 20) 90 40 5 True False,
      SetStrokeColor accent,
      SetLineWidth (5 / 10),
      RoundRect (gap + of_nat i * (90 + gap)) (cy - 20) 90 40 5 False True,
      SetFillColor accent,
      SetFont Helvetica_Bold 10,
      DrawCentredString (gap + of_nat i * (90 + gap) + 45) (cy - 20 + 40 - 13) (fst s),
      SetFillColor TEXT_SEC,
      SetFont Helvetica 7,
      DrawCentredString (gap + of_nat i * (90 + gap) + 45) (cy - 20 + 7) (snd s)]
     @ (if i + 1 < n
        then [SetStrokeColor accent,
              SetLineWidth (15 / 10),
              Line (gap + of_nat i * (90 + gap) + 90 + 4) cy
                   (gap + of_nat i * (90 + gap) + 90 + gap / 2 - 4) cy,
              SetFillColor accent,
              DrawPath [MoveTo (gap + of_nat i * (90 + gap) + 90 + gap / 2 - 4) (cy - 4),
                        LineTo (gap + of_nat i * (90 + gap) + 90 + gap / 2 - 4) (cy + 4),
                        LineTo (gap + of_nat i * (90 + gap) + 90 + gap / 2 + 2) cy,
                        ClosePath] True False]
        else [])"
proof -
  obtain icon label where s: "s = (icon, label)" by (cases s)
  have guard: "int i < int n - 1 \<longleftrightarrow> i + 1 < n" by linarith
  show ?thesis
    by (cases "i + 1 < n") (simp_all add: flow_step_def s guard Let_def box_w_def box_h_def)
qed

lemma gaps_fill_width:
  fixes W :: real and n :: nat
  shows "of_nat n * box_w + (of_nat n + 1) * ((W - of_nat n * box_w) / (of_nat n + 1)) = W"
proof -
  have "(of_nat n + 1 :: real) \<noteq> 0"
    by (metis of_nat_Suc of_nat_neq_0 add.commute)
  then show ?thesis by simp
qed

text \<open>
  Claim C5. For a \<open>DataFlowDiagram\<close> of width \<open>W\<close> with \<open>n\<close> steps,
  \<open>gap = (W - n \<times> 90) / (n + 1)\<close>, and \<open>draw\<close> issues for step \<open>i\<close>, in input order, a box
  90 wide and 40 high whose left edge is at \<open>gap + i \<times> (90 + gap)\<close>, so that the boxes are
  preceded, separated and followed by the same gap: \<open>n\<close> boxes and \<open>n + 1\<close> gaps fill the
  width exactly. An arrow (a line and a closed arrowhead) is drawn after box \<open>i\<close> exactly
  when \<open>i + 1 < n\<close>, its head centred on the middle of the gap that follows the box; the
  arrowheads are those of the boxes \<open>0 .. n - 2\<close>, so there are \<open>n - 1\<close> of them (none
  when there is no step).
\<close>

theorem C5_step_flow_geometry:
  "DataFlowDiagram_init W steps accent = Inr d \<Longrightarrow>
   (let n = length steps;
        gap = (W - of_nat n * 90) / (of_nat n + 1);
        cy = 32;
        bx = (\<lambda>i. gap + of_nat i * (90 + gap));
        ax = (\<lambda>i. bx i + 90 + gap / 2)
    in DataFlowDiagram_draw d =
         concat (map (\<lambda>i.
           [SetFillColor SURFACE2,
            RoundRect (bx i) (cy - 20) 90 40 5 True False,
            SetStrokeColor accent,
            SetLineWidth (5 / 10),
            RoundRect (bx i) (cy - 20) 90 40 5 False True,
            SetFillColor accent,
            SetFont Helvetica_Bold 10,
            DrawCentredString (bx i + 45) (cy - 20 + 40 - 13) (fst (steps ! i)),
            SetFillColor TEXT_SEC,
            SetFont Helvetica 7,
            DrawCentredString (bx i + 45) (cy - 20 + 7) (snd (steps ! i))]
           @ (if i + 1 < n
              then [SetStrokeColor accent,
                    SetLineWidth (15 / 10),
                    Line (bx i + 90 + 4) cy (ax i - 4) cy,
                    SetFillColor accent,
                    DrawPath [MoveTo (ax i - 4) (cy - 4), LineTo (ax i - 4) (cy + 4),
                              LineTo (ax i + 2) cy, ClosePath] True False]
              else [])) [0..<n])
       \<and> arrow_heads (DataFlowDiagram_draw d) =
           map (\<lambda>i. [MoveTo (ax i - 4) (cy - 4), LineTo (ax i - 4) (cy + 4),
                      LineTo (ax i + 2) cy, ClosePath]) [0..<n - 1]
       \<and> length (arrow_heads (DataFlowDiagram_draw d)) = n - 1
       \<and> of_nat n * 90 + (of_nat n + 1) * gap = W)"
proof -
  assume init: "DataFlowDiagram_init W steps accent = Inr d"
  define n where "n = length steps"
  define gap where "gap = (W - of_nat n * box_w) / (of_nat n + 1)"
  have d: "d = \<lparr>df_width = W, df_height = 64, df_steps = steps, df_accent = accent\<rparr>"
    using init by (simp add: DataFlowDiagram_init_def)
  have draw: "DataFlowDiagram_draw d =
      concat (map (\<lambda>i. flow_step accent n gap 32 (i, steps ! i)) [0..<n])"
    by (simp add: DataFlowDiagram_draw_def d Let_def map_enumerate_nth n_def gap_def)
  have guard: "\<And>i. int i < int n - 1 \<longleftrightarrow> i + 1 < n" by linarith
  have full: "DataFlowDiagram_draw d =
         concat (map (\<lambda>i.
           [SetFillColor SURFACE2,
            RoundRect (gap + of_nat i * (90 + gap)) (32 - 20) 90 40 5 True False,
            SetStrokeColor accent,
            SetLineWidth (5 / 10),
            RoundRect (gap + of_nat i * (90 + gap)) (32 - 20) 90 40 5 False True,
            SetFillColor accent,
            SetFont Helvetica_Bold 10,
            DrawCentredString (gap + of_nat i * (90 + gap) + 45) (32 - 20 + 40 - 13) (fst (steps ! i)),
            SetFillColor TEXT_SEC,
            SetFont Helvetica 7,
            DrawCentredString (gap + of_nat i * (90 + gap) + 45) (32 - 20 + 7) (snd (steps ! i))]
           @ (if i + 1 < n
              then [SetStrokeColor accent,
                    SetLineWidth (15 / 10),
                    Line (gap + of_nat i * (90 + gap) + 90 + 4) 32
                         (gap + of_nat i * (90 + gap) + 90 + gap / 2 - 4) 32,
                    SetFillColor accent,
                    DrawPath [MoveTo (gap + of_nat i * (90 + gap) + 90 + gap / 2 - 4) (32 - 4),
                              LineTo (gap + of_nat i * (90 + gap) + 90 + gap / 2 - 4) (32 + 4),
                              LineTo (gap + of_nat i * (90 + gap) + 90 + gap / 2 + 2) 32,
                              ClosePath] True False]
              else [])) [0..<n])"
    unfolding draw flow_step_eq ..
  have heads: "arrow_heads (DataFlowDiagram_draw d) =
      map (\<lambda>i. [MoveTo (gap + of_nat i * (90 + gap) + 90 + gap / 2 - 4) (32 - 4),
                 LineTo (gap + of_nat i * (90 + gap) + 90 + gap / 2 - 4) (32 + 4),
                 LineTo (gap + of_nat i * (90 + gap) + 90 + gap / 2 + 2) 32,
                 ClosePath]) [0..<n - 1]"
  proof -
    have "arrow_heads (DataFlowDiagram_draw d) =
        concat (map (\<lambda>i. if i + 1 < n
          then [[MoveTo (gap + of_nat i * (90 + gap) + 90 + gap / 2 - 4) (32 - 4),
                 LineTo (gap + of_nat i * (90 + gap) + 90 + gap / 2 - 4) (32 + 4),
                 LineTo (gap + of_nat i * (90 + gap) + 90 + gap / 2 + 2) 32,
                 ClosePath]]
          else []) [0..<n])"
      unfolding full arrow_heads_concat map_map
      by (rule arg_cong [where f = concat], rule map_cong) (simp_all add: arrow_heads_append)
    also have "\<dots> = map (\<lambda>i. [MoveTo (gap + of_nat i * (90 + gap) + 90 + gap / 2 - 4) (32 - 4),
                 LineTo (gap + of_nat i * (90 + gap) + 90 + gap / 2 - 4) (32 + 4),
                 LineTo (gap + of_nat i * (90 + gap) + 90 + gap / 2 + 2) 32,
                 ClosePath]) [0..<n - 1]"
      by (rule concat_all_but_last)
    finally show ?thesis .
  qed
  have fill: "of_nat n * 90 + (of_nat n + 1) * gap = W"
    using gaps_fill_width [of n W] by (simp add: gap_def box_w_def)
  have len: "length (arrow_heads (DataFlowDiagram_draw d)) = n - 1"
    unfolding heads by simp
  show ?thesis
    unfolding Let_def n_def [symmetric] gap_def [unfolded box_w_def, symmetric]
    using full heads len fill by simp
qed

text \<open>
  The theorem at width 510 and three steps: the gap is 60, the boxes start at 60, 210 and
  360, and the two arrowheads point at 182 and 332.
\<close>

theorem C5_step_flow_geometry_witness:
  "arrow_heads (DataFlowDiagram_draw
      \<lparr>df_width = 510, df_height = 64,
       df_steps = [(ascii ''GOV'', ascii ''Public Gov. API''), (ascii ''PARSE'', ascii ''OmniFolio Parser''),
                   (ascii ''UI'', ascii ''React Component'')],
       df_accent = ACCENT_PUR\<rparr>)
     = [[MoveTo 176 28, LineTo 176 36, LineTo 182 32, ClosePath],
        [MoveTo 326 28, LineTo 326 36, LineTo 332 32, ClosePath]]
   \<and> length (arrow_heads (DataFlowDiagram_draw
      \<lparr>df_width = 510, df_height = 64,
       df_steps = [(ascii ''GOV'', ascii ''Public Gov. API''), (ascii ''PARSE'', ascii ''OmniFolio Parser''),
                   (ascii ''UI'', ascii ''React Component'')],
       df_accent = ACCENT_PUR\<rparr>)) = 2
   \<and> (3 :: real) * 90 + (3 + 1) * ((510 - 3 * 90) / (3 + 1)) = 510"
  using C5_step_flow_geometry [of 510
      "[(ascii ''GOV'', ascii ''Public Gov. API''), (ascii ''PARSE'', ascii ''OmniFolio Parser''),
        (ascii ''UI'', ascii ''React Component'')]" ACCENT_PUR, OF DataFlowDiagram_init_def]
  by (simp add: Let_def upt_rec [of 0] upt_rec [of 1] upt_rec [of "Suc 0"])

subsection \<open>FeatureGrid: the grid and its height\<close>

lemma ceiling_half: "\<lceil>real n / 2\<rceil> = int ((n + 1) div 2)"
proof -
  have "real n / 2 = real_of_int (int n) / real_of_int 2" by simp
  then have "\<lceil>real n / 2\<rceil> = - (- int n div 2)"
    by (simp only: ceiling_divide_eq_div)
  also have "\<dots> = int ((n + 1) div 2)" by (simp add: zdiv_int)
  finally show ?thesis .
qed

lemma feature_card_eq:
  "feature_card accent height col_w (i, s) =
     [SetFillColor SURFACE2,
      RoundRect (of_nat (i mod 2) * (col_w + 8)) (height - (of_nat (i div 2) + 1) * 36 + 2)
                col_w (36 - 2) 4 True False,
      SetFillColor accent,
      Circle (of_nat (i mod 2) * (col_w + 8) + 12)
             (height - (of_nat (i div 2) + 1) * 36 + 2 + 36 / 2 - 1) 3 True False,
      SetFillColor TEXT_PRI,
      SetFont Helvetica_Bold 8,
      DrawString (of_nat (i mod 2) * (col_w + 8) + 22)
                 (height - (of_nat (i div 2) + 1) * 36 + 2 + 22) (fst s),
      SetFillColor TEXT_SEC,
      SetFont Helvetica 7,
      DrawString (of_nat (i mod 2) * (col_w + 8) + 22)
                 (height - (of_nat (i div 2) + 1) * 36 + 2 + 10) (snd s)]"
  by (cases s) (simp add: feature_card_def Let_def row_h_def)

text \<open>
  Claim C6, as the code has it. For a \<open>FeatureGrid\<close> of width \<open>W\<close> with \<open>n\<close> items, the size
  reported by \<open>wrap\<close> is \<open>W\<close> by \<open>ceil(n / 2) \<times> 36 + 4\<close>: the rows of height 36 and 4 units
  more. \<open>draw\<close> issues the cards in input order; card \<open>i\<close> is in column \<open>i mod 2\<close> (left
  edge \<open>(i mod 2) \<times> (col_w + 8)\<close> with \<open>col_w = (W - 8) / 2\<close>) and in row \<open>i div 2\<close> counted
  from the top (lower edge \<open>height - (i div 2 + 1) \<times> 36 + 2\<close>), and is \<open>col_w\<close> wide and 34
  high.
\<close>

theorem C6_feature_grid_layout:
  "FeatureGrid_init W features accent = Inr g \<Longrightarrow>
   (let n = length features;
        rows = \<lceil>real n / 2\<rceil>;
        height = real_of_int rows * 36 + 4;
        col_w = (W - 8) / 2;
        bx = (\<lambda>i. of_nat (i mod 2) * (col_w + 8));
        by = (\<lambda>i. height - (of_nat (i div 2) + 1) * 36 + 2)
    in FeatureGrid_wrap g args = (g, (W, height))
       \<and> rows = int ((n + 1) div 2)
       \<and> FeatureGrid_draw g =
           concat (map (\<lambda>i.
             [SetFillColor SURFACE2,
              RoundRect (bx i) (by i) col_w (36 - 2) 4 True False,
              SetFillColor accent,
              Circle (bx i + 12) (by i + 36 / 2 - 1) 3 True False,
              SetFillColor TEXT_PRI,
              SetFont Helvetica_Bold 8,
              DrawString (bx i + 22) (by i + 22) (fst (features ! i)),
              SetFillColor TEXT_SEC,
              SetFont Helvetica 7,
              DrawString (bx i + 22) (by i + 10) (snd (features ! i))]) [0..<n]))"
proof -
  assume init: "FeatureGrid_init W features accent = Inr g"
  have g: "g = \<lparr>fg_width = W, fg_features = features, fg_accent = accent,
                fg_height = real_of_int \<lceil>real (length features) / 2\<rceil> * 36 + 4\<rparr>"
    using init by (simp add: FeatureGrid_init_def Let_def)
  have w: "FeatureGrid_wrap g args = (g, (W, real_of_int \<lceil>real (length features) / 2\<rceil> * 36 + 4))"
    by (simp add: FeatureGrid_wrap_def g)
  have d: "FeatureGrid_draw g =
      concat (map (\<lambda>i. feature_card accent (real_of_int \<lceil>real (length features) / 2\<rceil> * 36 + 4)
                          ((W - 8) / 2) (i, features ! i)) [0..<length features])"
    by (simp add: FeatureGrid_draw_def g Let_def map_enumerate_nth)
  show ?thesis
    unfolding Let_def w d feature_card_eq using ceiling_half [of "length features"] by simp
qed

text \<open>
  The theorem at width 408 and three items: two rows, height 76; the cards are at
  (0, 42), (208, 42) and (0, 6).
\<close>

theorem C6_feature_grid_layout_witness:
  "FeatureGrid_wrap
     \<lparr>fg_width = 408, fg_features = [(ascii ''A'', ascii ''a''), (ascii ''B'', ascii ''b''),
        (ascii ''C'', ascii ''c'')], fg_accent = ACCENT_AMB, fg_height = 76\<rparr> ([] :: nat list)
   = (\<lparr>fg_width = 408, fg_features = [(ascii ''A'', ascii ''a''), (ascii ''B'', ascii ''b''),
        (ascii ''C'', ascii ''c'')], fg_accent = ACCENT_AMB, fg_height = 76\<rparr>, (408, 2 * 36 + 4))
   \<and> FeatureGrid_draw
     \<lparr>fg_width = 408, fg_features = [(ascii ''A'', ascii ''a''), (ascii ''B'', ascii ''b''),
        (ascii ''C'', ascii ''c'')], fg_accent = ACCENT_AMB, fg_height = 76\<rparr>
   = [SetFillColor SURFACE2, RoundRect 0 42 200 34 4 True False, SetFillColor ACCENT_AMB,
      Circle 12 59 3 True False, SetFillColor TEXT_PRI, SetFont Helvetica_Bold 8,
      DrawString 22 64 (ascii ''A''), SetFillColor TEXT_SEC, SetFont Helvetica 7,
      DrawString 22 52 (ascii ''a''),
      SetFillColor SURFACE2, RoundRect 208 42 200 34 4 True False, SetFillColor ACCENT_AMB,
      Circle 220 59 3 True False, SetFillColor TEXT_PRI, SetFont Helvetica_Bold 8,
      DrawString 230 64 (ascii ''B''), SetFillColor TEXT_SEC, SetFont Helvetica 7,
      DrawString 230 52 (ascii ''b''),
      SetFillColor SURFACE2, RoundRect 0 6 200 34 4 True False, SetFillColor ACCENT_AMB,
      Circle 12 23 3 True False, SetFillColor TEXT_PRI, SetFont Helvetica_Bold 8,
      DrawString 22 28 (ascii ''C''), SetFillColor TEXT_SEC, SetFont Helvetica 7,
      DrawString 22 16 (ascii ''c'')]"
  using C6_feature_grid_layout [of 408 "[(ascii ''A'', ascii ''a''), (ascii ''B'', ascii ''b''),
        (ascii ''C'', ascii ''c'')]" ACCENT_AMB _ "[] :: nat list", OF FeatureGrid_init_def [unfolded Let_def]]
  by (simp add: Let_def upt_rec [of 0] upt_rec [of 1] upt_rec [of 2] upt_rec [of "Suc 0"])

text \<open>
  The measured height is not \<open>ceil(n / 2) \<times> rowHeight\<close>: a grid of two items reports a
  height of 40, not 36.
\<close>

theorem C6_height_counterexample:
  "FeatureGrid_init 408 [(ascii ''A'', ascii ''a''), (ascii ''B'', ascii ''b'')] ACCENT_AMB
     = Inr \<lparr>fg_width = 408, fg_features = [(ascii ''A'', ascii ''a''), (ascii ''B'', ascii ''b'')],
            fg_accent = ACCENT_AMB, fg_height = 40\<rparr>
   \<and> snd (FeatureGrid_wrap
         \<lparr>fg_width = 408, fg_features = [(ascii ''A'', ascii ''a''), (ascii ''B'', ascii ''b'')],
          fg_accent = ACCENT_AMB, fg_height = 40\<rparr> ([] :: nat list)) = (408, 40)
   \<and> (40 :: real) \<noteq> real_of_int \<lceil>2 / 2 :: real\<rceil> * 36"
  by (simp add: FeatureGrid_init_def FeatureGrid_wrap_def Let_def)

subsection \<open>HeroHeader reads the clock\<close>

text \<open>
  \<open>HeroHeader.draw\<close> prints \<open>datetime.date.today()\<close>. Two drawings of the same header, on
  the same canvas, issue the same calls exactly when the formatted dates agree; drawn on
  two consecutive days, the header gives two different lists of calls.
\<close>

lemma HeroHeader_draw_date:
  "HeroHeader_draw sw d1 h = HeroHeader_draw sw d2 h \<longleftrightarrow> strftime_B_d_Y d1 = strftime_B_d_Y d2"
  by (simp add: HeroHeader_draw_def Let_def)

lemma HeroHeader_draw_differs_by_day:
  "HeroHeader_draw sw \<lparr>year = 2026, month = March, day = 9\<rparr> h
     \<noteq> HeroHeader_draw sw \<lparr>year = 2026, month = March, day = 10\<rparr> h"
  by (simp add: HeroHeader_draw_date strftime_B_d_Y_def pad2_def digits.simps ascii_def)

subsection \<open>wrap\<close>

text \<open>
  Claim C9. For every custom flowable, \<open>wrap\<close> returns the flowable unchanged and a size
  that does not depend on the arguments of the call, so every call returns the same
  pair. The size is fixed by the constructor's inputs: \<open>(w, h)\<close> for a \<open>ColoredRect\<close>,
  \<open>(width, 200)\<close> for a \<open>HeroHeader\<close>, \<open>(width, 54)\<close> for a \<open>SectionBanner\<close>,
  \<open>(size, size \<times> 0.7)\<close> for a \<open>ScoreGauge\<close>, \<open>(width, 64)\<close> for a \<open>DataFlowDiagram\<close>,
  \<open>(width, 32)\<close> for a \<open>ScoreBreakdownBar\<close>, \<open>(width, ceil(n / 2) \<times> 36 + 4)\<close> for a
  \<open>FeatureGrid\<close> of \<open>n\<close> items and \<open>(width, height)\<close> for a \<open>ColorBadge\<close>.
\<close>

theorem C9_wrap_fixed_at_construction:
  "wrap f (args :: 'a list) = (f, snd (wrap f ([] :: 'a list)))
   \<and> wrap (fst (wrap f args)) (args' :: 'a list) = wrap f args
   \<and> map_sum id (\<lambda>x. snd (wrap (F_ColoredRect x) args)) (ColoredRect_init w h col radius) = Inr (w, h)
   \<and> map_sum id (\<lambda>x. snd (wrap (F_HeroHeader x) args)) (HeroHeader_init W) = Inr (W, 200)
   \<and> map_sum id (\<lambda>x. snd (wrap (F_SectionBanner x) args))
        (SectionBanner_init W number title subtitle col) = Inr (W, 54)
   \<and> map_sum id (\<lambda>x. snd (wrap (F_ScoreGauge x) args)) (ScoreGauge_init score label col sz)
        = Inr (sz, sz * (7 / 10))
   \<and> map_sum id (\<lambda>x. snd (wrap (F_DataFlowDiagram x) args)) (DataFlowDiagram_init W steps col)
        = Inr (W, 64)
   \<and> map_sum id (\<lambda>x. snd (wrap (F_ScoreBreakdownBar x) args)) (ScoreBreakdownBar_init W comps)
        = Inr (W, 32)
   \<and> map_sum id (\<lambda>x. snd (wrap (F_FeatureGrid x) args)) (FeatureGrid_init W features col)
        = Inr (W, real_of_int \<lceil>real (length features) / 2\<rceil> * 36 + 4)
   \<and> map_sum id (\<lambda>x. snd (wrap (F_ColorBadge x) args)) (ColorBadge_init txt bg fg bw bh)
        = Inr (bw, bh)"
proof -
  have a: "wrap f xs = (f, snd (wrap f []))" for xs :: "'a list"
    by (cases f)
      (simp_all add: ColoredRect_wrap_def HeroHeader_wrap_def SectionBanner_wrap_def
        ScoreGauge_wrap_def DataFlowDiagram_wrap_def ScoreBreakdownBar_wrap_def
        FeatureGrid_wrap_def ColorBadge_wrap_def)
  have b: "wrap (fst (wrap f args)) args' = wrap f args"
    by (metis a fst_conv)
  show ?thesis
    using a [of args] b
    by (simp add: ColoredRect_wrap_def HeroHeader_wrap_def SectionBanner_wrap_def
        ScoreGauge_wrap_def DataFlowDiagram_wrap_def ScoreBreakdownBar_wrap_def
        FeatureGrid_wrap_def ColorBadge_wrap_def
        ColoredRect_init_def HeroHeader_init_def SectionBanner_init_def
        ScoreGauge_init_def DataFlowDiagram_init_def ScoreBreakdownBar_init_def
        FeatureGrid_init_def ColorBadge_init_def Let_def)
qed

text \<open>
  The theorem at a gauge of size 90, called with two different argument lists.
\<close>

theorem C9_wrap_fixed_at_construction_witness:
  "wrap (F_ScoreGauge \<lparr>sg_score = 50, sg_label = ascii ''OIC'', sg_color = ACCENT_PUR, sg_size = 90\<rparr>)
      [480 :: real, 700]
     = (F_ScoreGauge \<lparr>sg_score = 50, sg_label = ascii ''OIC'', sg_color = ACCENT_PUR, sg_size = 90\<rparr>,
        (90, 63))
   \<and> wrap (F_ScoreGauge \<lparr>sg_score = 50, sg_label = ascii ''OIC'', sg_color = ACCENT_PUR, sg_size = 90\<rparr>)
      [10 :: real, 20]
     = (F_ScoreGauge \<lparr>sg_score = 50, sg_label = ascii ''OIC'', sg_color = ACCENT_PUR, sg_size = 90\<rparr>,
        (90, 63))"
  using C9_wrap_fixed_at_construction [of
      "F_ScoreGauge \<lparr>sg_score = 50, sg_label = ascii ''OIC'', sg_color = ACCENT_PUR, sg_size = 90\<rparr>"
      "[480 :: real, 700]" "[10, 20]"]
  by (simp add: ScoreGauge_wrap_def)

subsection \<open>make_table: the warning style\<close>

lemma py_in_sublist: "py_in needle hay \<longleftrightarrow> sublist needle hay"
  by (induction hay) (simp_all add: sublist_Cons_right)

lemma py_in_iff: "py_in needle hay \<longleftrightarrow> (\<exists>p s. hay = p @ needle @ s)"
  by (simp add: py_in_sublist sublist_def)

lemma warn_style_neq_body_style: "warn_style \<noteq> body_style"
  by (simp add: warn_style_def body_style_def ascii_def)

lemma paragraph_style_style_cell:
  "paragraph_style (style_cell cell) = warn_style \<longleftrightarrow> py_in WARN_SIGN cell"
  using warn_style_neq_body_style by (auto simp: style_cell_def Let_def)

text \<open>
  Claim C10. \<open>make_table\<close> returns the same table whatever \<open>warn_col\<close> is. Row 0 of its
  data is the header row; body row \<open>r\<close> is row \<open>r + 1\<close>, and its cell in column \<open>j\<close>, in any
  column, carries \<open>warn_style\<close> if and only if the cell's string contains the two code
  points U+26A0 U+FE0F in sequence; every other body cell carries \<open>body_style\<close>.
\<close>

theorem C10_warn_style_iff_warning_sign:
  "make_table headers rows col_widths warn_col = make_table headers rows col_widths None
   \<and> t_data (make_table headers rows col_widths warn_col) =
       map (\<lambda>h. Paragraph (ascii ''<b>'' @ h @ ascii ''</b>'') caption_style) headers
       # map (map (\<lambda>cell. Paragraph cell (if py_in WARN_SIGN cell then warn_style else body_style))) rows
   \<and> (\<forall>r j. r < length rows \<and> j < length (rows ! r) \<longrightarrow>
         (paragraph_style (t_data (make_table headers rows col_widths warn_col) ! Suc r ! j) = warn_style
          \<longleftrightarrow> (\<exists>p s. rows ! r ! j = p @ WARN_SIGN @ s)))"
proof -
  have a: "make_table headers rows col_widths warn_col = make_table headers rows col_widths None"
    by (simp add: make_table_def)
  have cell: "style_cell = (\<lambda>cell. Paragraph cell (if py_in WARN_SIGN cell then warn_style else body_style))"
    by (rule ext) (simp add: style_cell_def Let_def)
  have d: "t_data (make_table headers rows col_widths warn_col) =
       map (\<lambda>h. Paragraph (ascii ''<b>'' @ h @ ascii ''</b>'') caption_style) headers
       # map (map style_cell) rows"
    by (simp add: make_table_def Let_def)
  have c: "paragraph_style (t_data (make_table headers rows col_widths warn_col) ! Suc r ! j) = warn_style
          \<longleftrightarrow> (\<exists>p s. rows ! r ! j = p @ WARN_SIGN @ s)"
    if "r < length rows" "j < length (rows ! r)" for r j
    using that by (simp add: d paragraph_style_style_cell py_in_iff)
  show ?thesis
    using a d c unfolding cell by blast
qed

text \<open>
  The theorem at a table of two body rows, with \<open>warn_col = 0\<close>: the cell of column 1 that
  ends in U+26A0 U+FE0F is red, the cell of column 0 that ends in U+26A0 alone is not.
\<close>

theorem C10_warn_style_iff_warning_sign_witness:
  "paragraph_style (t_data (make_table [ascii ''Table'', ascii ''Projection'']
        [[ascii ''sec_filing_sections'', ascii ''300 MB '' @ [0x26A0, 0xFE0F]],
         [ascii ''sec_watchlist'' @ [0x26A0], ascii ''< 5 MB'']] [45 / 10, 36 / 10] (Some 0)) ! Suc 0 ! Suc 0)
     = warn_style
   \<and> paragraph_style (t_data (make_table [ascii ''Table'', ascii ''Projection'']
        [[ascii ''sec_filing_sections'', ascii ''300 MB '' @ [0x26A0, 0xFE0F]],
         [ascii ''sec_watchlist'' @ [0x26A0], ascii ''< 5 MB'']] [45 / 10, 36 / 10] (Some 0)) ! Suc 0 ! 0)
     = body_style
   \<and> paragraph_style (t_data (make_table [ascii ''Table'', ascii ''Projection'']
        [[ascii ''sec_filing_sections'', ascii ''300 MB '' @ [0x26A0, 0xFE0F]],
         [ascii ''sec_watchlist'' @ [0x26A0], ascii ''< 5 MB'']] [45 / 10, 36 / 10] (Some 0)) ! Suc (Suc 0) ! 0)
     = body_style
   \<and> make_table [ascii ''Table'', ascii ''Projection'']
        [[ascii ''sec_filing_sections'', ascii ''300 MB '' @ [0x26A0, 0xFE0F]],
         [ascii ''sec_watchlist'' @ [0x26A0], ascii ''< 5 MB'']] [45 / 10, 36 / 10] (Some 0)
     = make_table [ascii ''Table'', ascii ''Projection'']
        [[ascii ''sec_filing_sections'', ascii ''300 MB '' @ [0x26A0, 0xFE0F]],
         [ascii ''sec_watchlist'' @ [0x26A0], ascii ''< 5 MB'']] [45 / 10, 36 / 10] None"
  using C10_warn_style_iff_warning_sign [of "[ascii ''Table'', ascii ''Projection'']"
        "[[ascii ''sec_filing_sections'', ascii ''300 MB '' @ [0x26A0, 0xFE0F]],
         [ascii ''sec_watchlist'' @ [0x26A0], ascii ''< 5 MB'']]" "[45 / 10, 36 / 10]" "Some 0"]
  by (simp add: make_table_def style_cell_def Let_def WARN_SIGN_def ascii_def)

end
